theory Spec2Isabelle
  imports Complex_Main
begin

section \<open>Moon data classification notebook: the authored functions\<close>

text \<open>
  The notebook \<^verbatim>\<open>Moon_Data/Moon_Classification_Exercise.ipynb\<close> defines three
  functions of its own: \<^verbatim>\<open>make_csv\<close>, \<^verbatim>\<open>evaluate\<close> and
  \<^verbatim>\<open>delete_endpoint\<close>. Each is embedded below as a function on an explicit
  world (standard output, a file system, the deployed endpoints) that returns either an
  exception or a value, together with the world it leaves behind.
\<close>

subsection \<open>Exceptions, printed output and the world\<close>

datatype error =
    ValueError
  | FileNotFoundError
  | FileExistsError
  | ClientError

text \<open>
  A numpy \<^verbatim>\<open>float64\<close> result. Finite values are kept as exact rationals (the
  rounding of a quotient to the nearest double is not modelled); the three special values
  are what numpy's true division returns on a zero denominator.
\<close>

datatype npfloat = Finite rat | NaN | PosInf | NegInf

text \<open>
  What a \<^verbatim>\<open>print\<close> call wrote: a plain string, the cross table that pandas
  builds from two arrays (kept as its two arguments), or a format string applied to a
  name and a number (the digits of \<^verbatim>\<open>{:.3f}\<close> are not spelled out). Printing
  itself never fails.
\<close>

datatype printed =
    Text string
  | Crosstab "int list" "int list"
  | Formatted string string npfloat

text \<open>
  The world: what was printed so far, the directories and the files (name and content)
  of the file system, and the names of the deployed endpoints.
\<close>

record world =
  stdout :: "printed list"
  fs_dirs :: "string list"
  fs_files :: "(string \<times> string) list"
  endpoints :: "string list"

definition print :: "printed \<Rightarrow> world \<Rightarrow> world" where
  "print line w = w\<lparr>stdout := stdout w @ [line]\<rparr>"

subsection \<open>make_csv\<close>

text \<open>
  \<^verbatim>\<open>
  def make_csv(x, y, filename, data_dir):
      if not os.path.exists(data_dir):
          os.makedirs(data_dir)
      # your code here
      print('Path created: '+str(data_dir)+'/'+str(filename))
  \<close>
  The body between the directory check and the print is empty in the source.

  What \<^verbatim>\<open>os.path.exists\<close> answers and what \<^verbatim>\<open>os.makedirs\<close> does depend
  on the operating system and on the whole file system (how a path resolves, limits on
  names, permissions, what was created before a failure). They are therefore parameters
  of the model: \<open>os_path_exists\<close> is any function from the world and a path to an
  answer, \<open>os_makedirs\<close> any function from a path and the world to an outcome and the
  world it leaves. The properties of make_csv are proved for all of them.
\<close>

definition make_csv ::
  "(world \<Rightarrow> string \<Rightarrow> bool) \<Rightarrow> (string \<Rightarrow> world \<Rightarrow> (error + unit) \<times> world) \<Rightarrow>
   rat list list \<Rightarrow> int list \<Rightarrow> string \<Rightarrow> string \<Rightarrow> world \<Rightarrow> (error + unit) \<times> world" where
  "make_csv os_path_exists os_makedirs x y filename data_dir w =
     (case (if \<not> os_path_exists w data_dir then os_makedirs data_dir w else (Inr (), w)) of
        (Inl e, w1) \<Rightarrow> (Inl e, w1)
      | (Inr u, w1) \<Rightarrow>
          (Inr (), print (Text (''Path created: '' @ data_dir @ ''/'' @ filename)) w1))"

text \<open>Reading a file of the world back: its content, if there is a file of that name.\<close>

definition read_file :: "world \<Rightarrow> string \<Rightarrow> string option" where
  "read_file w p = map_of (fs_files w) p"

subsection \<open>The numpy operations evaluate uses\<close>

text \<open>\<^verbatim>\<open>np.round\<close> rounds to the nearest integer, a tie to the even one.\<close>

definition np_round :: "rat \<Rightarrow> int" where
  "np_round s =
     (let f = \<lfloor>s\<rfloor>; d = s - of_int f
      in if d < 1 / 2 then f else if 1 / 2 < d then f + 1 else if even f then f else f + 1)"

text \<open>
  Broadcasting of two one-dimensional arrays: equal lengths pair up, an array of one
  element (also the zero-dimensional array that \<^verbatim>\<open>np.squeeze\<close> makes of it) is
  repeated, anything else raises.
\<close>

definition np_broadcast :: "'a list \<Rightarrow> 'b list \<Rightarrow> error + ('a \<times> 'b) list" where
  "np_broadcast xs ys =
     (if length xs = length ys then Inr (zip xs ys)
      else if length ys = 1 then Inr (map (\<lambda>x. (x, hd ys)) xs)
      else if length xs = 1 then Inr (map (\<lambda>y. (hd xs, y)) ys)
      else Inl ValueError)"

definition np_logical_and :: "int list \<Rightarrow> int list \<Rightarrow> error + bool list" where
  "np_logical_and xs ys =
     (case np_broadcast xs ys of
        Inl e \<Rightarrow> Inl e
      | Inr ps \<Rightarrow> Inr (map (\<lambda>(a, b). a \<noteq> 0 \<and> b \<noteq> 0) ps))"

definition np_sum :: "bool list \<Rightarrow> int" where
  "np_sum bs = sum_list (map (\<lambda>b. if b then 1 else 0) bs)"

definition one_minus :: "int list \<Rightarrow> int list" where
  "one_minus xs = map (\<lambda>v. 1 - v) xs"

text \<open>True division of two numpy integers: a zero denominator raises nothing.\<close>

definition np_true_divide :: "int \<Rightarrow> int \<Rightarrow> npfloat" where
  "np_true_divide a b =
     (if b = 0 then (if a = 0 then NaN else if 0 < a then PosInf else NegInf)
      else Finite (of_int a / of_int b))"

subsection \<open>evaluate\<close>

record predictor =
  predict :: "rat list list \<Rightarrow> rat list"
  endpoint :: string

record metrics =
  TP :: int
  FP :: int
  FN :: int
  TN :: int
  Precision :: npfloat
  Recall :: npfloat
  Accuracy :: npfloat

text \<open>
  \<^verbatim>\<open>
  tp = np.logical_and(test_labels, test_preds).sum()
  fp = np.logical_and(1-test_labels, test_preds).sum()
  tn = np.logical_and(1-test_labels, 1-test_preds).sum()
  fn = np.logical_and(test_labels, 1-test_preds).sum()
  \<close>
  The result is the tuple \<open>(tp, fp, tn, fn)\<close>.
\<close>

definition confusion :: "int list \<Rightarrow> int list \<Rightarrow> error + (int \<times> int \<times> int \<times> int)" where
  "confusion test_labels test_preds =
     (case np_logical_and test_labels test_preds of
        Inl e \<Rightarrow> Inl e
      | Inr a \<Rightarrow>
     (case np_logical_and (one_minus test_labels) test_preds of
        Inl e \<Rightarrow> Inl e
      | Inr b \<Rightarrow>
     (case np_logical_and (one_minus test_labels) (one_minus test_preds) of
        Inl e \<Rightarrow> Inl e
      | Inr c \<Rightarrow>
     (case np_logical_and test_labels (one_minus test_preds) of
        Inl e \<Rightarrow> Inl e
      | Inr d \<Rightarrow> Inr (np_sum a, np_sum b, np_sum c, np_sum d)))))"

text \<open>
  \<^verbatim>\<open>
  recall = tp / (tp + fn)
  precision = tp / (tp + fp)
  accuracy = (tp + tn) / (tp + fp + tn + fn)
  return {'TP': tp, 'FP': fp, 'FN': fn, 'TN': tn,
          'Precision': precision, 'Recall': recall, 'Accuracy': accuracy}
  \<close>
\<close>

definition classification_metrics :: "int \<times> int \<times> int \<times> int \<Rightarrow> metrics" where
  "classification_metrics counts =
     (case counts of (tp, fp, tn, fn) \<Rightarrow>
        \<lparr>TP = tp, FP = fp, FN = fn, TN = tn,
         Precision = np_true_divide tp (tp + fp),
         Recall = np_true_divide tp (tp + fn),
         Accuracy = np_true_divide (tp + tn) (tp + fp + tn + fn)\<rparr>)"

text \<open>
  \<^verbatim>\<open>pd.crosstab\<close> builds a data frame from its two arrays. It raises ValueError
  ("All arrays must be of the same length") when they are one-dimensional arrays of
  different lengths; the zero-dimensional array that \<^verbatim>\<open>np.squeeze\<close> makes of a
  single prediction is taken as a scalar and repeated.
\<close>

definition pd_crosstab :: "int list \<Rightarrow> int list \<Rightarrow> error + printed" where
  "pd_crosstab test_labels test_preds =
     (if length test_labels \<noteq> length test_preds \<and> length test_preds \<noteq> 1
      then Inl ValueError
      else Inr (Crosstab test_labels test_preds))"

text \<open>
  The five \<^verbatim>\<open>print\<close> calls of the verbose branch, in their order:
  \<^verbatim>\<open>
  print(pd.crosstab(test_labels, test_preds, rownames=['actuals'], colnames=['predictions']))
  print("\n{:<11} {:.3f}".format('Recall:', recall))
  print("{:<11} {:.3f}".format('Precision:', precision))
  print("{:<11} {:.3f}".format('Accuracy:', accuracy))
  print()
  \<close>
  The table is built before anything is printed: when \<^verbatim>\<open>pd.crosstab\<close> raises,
  the exception leaves the branch with the world as it was.
\<close>

definition print_metrics ::
  "int list \<Rightarrow> int list \<Rightarrow> metrics \<Rightarrow> world \<Rightarrow> (error + unit) \<times> world" where
  "print_metrics test_labels test_preds m w =
     (case pd_crosstab test_labels test_preds of
        Inl e \<Rightarrow> (Inl e, w)
      | Inr table \<Rightarrow>
          (Inr (),
           print (Text [])
             (print (Formatted ''{:<11} {:.3f}'' ''Accuracy:'' (Accuracy m))
               (print (Formatted ''{:<11} {:.3f}'' ''Precision:'' (Precision m))
                 (print (Formatted (CHR 0x0A # ''{:<11} {:.3f}'') ''Recall:'' (Recall m))
                   (print table w))))))"

text \<open>
  \<^verbatim>\<open>
  def evaluate(predictor, test_features, test_labels, verbose=True):
      test_preds = np.squeeze(np.round(predictor.predict(test_features)))
      ...
      if verbose:
          ...
      return {...}
  \<close>
  The predictor's answer is one score for each test point. \<^verbatim>\<open>np.squeeze\<close> only
  drops axes of length one, so the rounded scores stay a flat list; what it does to a
  single score is covered by the broadcasting and by \<open>pd_crosstab\<close> above. An
  exception of the counts leaves the world as it was, since nothing was printed yet.
\<close>

definition evaluate ::
  "predictor \<Rightarrow> rat list list \<Rightarrow> int list \<Rightarrow> bool \<Rightarrow> world \<Rightarrow> (error + metrics) \<times> world" where
  "evaluate predictor test_features test_labels verbose w =
     (let test_preds = map np_round (predict predictor test_features)
      in case confusion test_labels test_preds of
           Inl e \<Rightarrow> (Inl e, w)
         | Inr counts \<Rightarrow>
             (let m = classification_metrics counts
              in if verbose
                 then (case print_metrics test_labels test_preds m w of
                         (Inl e, w1) \<Rightarrow> (Inl e, w1)
                       | (Inr u, w1) \<Rightarrow> (Inr m, w1))
                 else (Inr m, w)))"

subsection \<open>delete_endpoint\<close>

text \<open>
  \<^verbatim>\<open>
  def delete_endpoint(predictor):
      try:
          boto3.client('sagemaker').delete_endpoint(EndpointName=predictor.endpoint)
          print('Deleted {}'.format(predictor.endpoint))
      except:
          print('Already deleted: {}'.format(predictor.endpoint))
  \<close>
  A predictor is an object with an \<^verbatim>\<open>endpoint\<close> attribute, so reading the name
  raises nothing. The call to the remote service is a parameter \<open>client\<close>: any function
  from the endpoint's name and the world to an outcome and a world.
  \<open>sagemaker_delete_endpoint\<close> is the service as the notebook meets it: deleting a name
  that is not deployed fails.
\<close>

definition sagemaker_delete_endpoint :: "string \<Rightarrow> world \<Rightarrow> (error + unit) \<times> world" where
  "sagemaker_delete_endpoint name w =
     (if name \<in> set (endpoints w)
      then (Inr (), w\<lparr>endpoints := removeAll name (endpoints w)\<rparr>)
      else (Inl ClientError, w))"

definition delete_endpoint ::
  "(string \<Rightarrow> world \<Rightarrow> (error + unit) \<times> world) \<Rightarrow> predictor \<Rightarrow> world \<Rightarrow> (error + unit) \<times> world" where
  "delete_endpoint client predictor w =
     (case client (endpoint predictor) w of
        (Inr u, w1) \<Rightarrow> (Inr (), print (Text (''Deleted '' @ endpoint predictor)) w1)
      | (Inl e, w1) \<Rightarrow> (Inr (), print (Text (''Already deleted: '' @ endpoint predictor)) w1))"

subsection \<open>The specification's reading of the confusion counts\<close>

text \<open>
  Labels and rounded predictions are binary when each is 0 or 1. Scores are in the
  binary range when each lies in the half-open interval from -1/2 to 3/2, which holds the
  unit interval of a sigmoid's output. The specification counts the positions where the
  label is \<open>l\<close> and the rounded prediction is \<open>r\<close>, and derives the three rates from
  the four counts.
\<close>

definition binary :: "int list \<Rightarrow> bool" where
  "binary xs = list_all (\<lambda>v. v = 0 \<or> v = 1) xs"

definition binary_range :: "rat list \<Rightarrow> bool" where
  "binary_range ss = list_all (\<lambda>s. - (1 / 2) \<le> s \<and> s < 3 / 2) ss"

definition count_positions :: "int \<Rightarrow> int \<Rightarrow> int list \<Rightarrow> int list \<Rightarrow> int" where
  "count_positions l r labels preds =
     int (length (filter (\<lambda>(a, b). a = l \<and> b = r) (zip labels preds)))"

definition spec_metrics :: "int list \<Rightarrow> int list \<Rightarrow> metrics" where
  "spec_metrics labels preds =
     (let tp = count_positions 1 1 labels preds;
          fp = count_positions 0 1 labels preds;
          tn = count_positions 0 0 labels preds;
          fn = count_positions 1 0 labels preds
      in \<lparr>TP = tp, FP = fp, FN = fn, TN = tn,
          Precision = np_true_divide tp (tp + fp),
          Recall = np_true_divide tp (tp + fn),
          Accuracy = np_true_divide (tp + tn) (tp + fp + tn + fn)\<rparr>)"

subsection \<open>Concrete inputs\<close>

text \<open>
  A predictor that scores each point by its first coordinate, and the world before
  anything was printed, written or deployed.
\<close>

definition raw_predictor :: predictor where
  "raw_predictor =
     \<lparr>predict = map (\<lambda>pt. case pt of [] \<Rightarrow> 0 | x # rest \<Rightarrow> x),
      endpoint = ''moon-endpoint''\<rparr>"

definition empty_world :: world where
  "empty_world = \<lparr>stdout = [], fs_dirs = [], fs_files = [], endpoints = []\<rparr>"

text \<open>
  One behaviour of the two file system calls, for the examples: a working directory
  whose entries are the names listed in the world, asked about the empty path or about a
  plain name such as \<^verbatim>\<open>data_moon\<close> only. There \<^verbatim>\<open>os.path.exists\<close> is false on
  the empty path and true on a listed name, and \<^verbatim>\<open>os.makedirs\<close> raises
  FileNotFoundError on the empty path, FileExistsError on a listed name, and otherwise
  adds the directory. Paths with separators, dots or special characters are outside
  these examples; no general property below rests on the two definitions.
\<close>

definition plain_path_exists :: "world \<Rightarrow> string \<Rightarrow> bool" where
  "plain_path_exists w p =
     (p \<noteq> [] \<and> (p \<in> set (fs_dirs w) \<or> p \<in> set (map fst (fs_files w))))"

definition plain_makedirs :: "string \<Rightarrow> world \<Rightarrow> (error + unit) \<times> world" where
  "plain_makedirs name w =
     (if name = [] then (Inl FileNotFoundError, w)
      else if plain_path_exists w name then (Inl FileExistsError, w)
      else (Inr (), w\<lparr>fs_dirs := fs_dirs w @ [name]\<rparr>))"

section \<open>Properties of evaluate\<close>

subsection \<open>Auxiliary facts\<close>

lemma floor_rat_numeral_divide:
  "\<lfloor>(numeral a :: rat) / numeral b\<rfloor> = numeral a div numeral b"
  by (metis floor_divide_of_int_eq of_int_numeral)

lemma floor_rat_one_divide:
  "\<lfloor>(1 :: rat) / numeral b\<rfloor> = 1 div numeral b"
  by (metis floor_divide_of_int_eq of_int_numeral of_int_1)

lemma pd_crosstab_same_length:
  "length ls = length rs \<Longrightarrow> pd_crosstab ls rs = Inr (Crosstab ls rs)"
  by (simp add: pd_crosstab_def)

text \<open>The outcome of evaluate, which does not mention the world.\<close>

lemma fst_evaluate:
  "fst (evaluate p X Y verbose w) =
    (case confusion Y (map np_round (predict p X)) of
       Inl e \<Rightarrow> Inl e
     | Inr counts \<Rightarrow>
         if verbose
         then (case pd_crosstab Y (map np_round (predict p X)) of
                 Inl e \<Rightarrow> Inl e
               | Inr table \<Rightarrow> Inr (classification_metrics counts))
         else Inr (classification_metrics counts))"
  by (simp add: evaluate_def Let_def print_metrics_def split: sum.splits)

lemma fst_evaluate_same_length:
  assumes "length (predict p X) = length Y"
  shows "fst (evaluate p X Y verbose w) =
     map_sum id classification_metrics (confusion Y (map np_round (predict p X)))"
  using assms by (simp add: fst_evaluate pd_crosstab_same_length split: sum.splits)

lemma evaluate_returnsI:
  assumes "fst (evaluate p X Y verbose w) = Inr m" and "Q m"
  shows "\<exists>m w'. evaluate p X Y verbose w = (Inr m, w') \<and> Q m"
proof -
  have "evaluate p X Y verbose w = (Inr m, snd (evaluate p X Y verbose w))"
    using assms(1) by (simp add: prod_eq_iff)
  with assms(2) show ?thesis by blast
qed

lemma np_broadcast_same_length:
  "length xs = length ys \<Longrightarrow> np_broadcast xs ys = Inr (zip xs ys)"
  by (simp add: np_broadcast_def)

lemma confusion_same_length:
  assumes "length ls = length rs"
  shows "confusion ls rs =
    Inr (np_sum (map (\<lambda>(a, b). a \<noteq> 0 \<and> b \<noteq> 0) (zip ls rs)),
         np_sum (map (\<lambda>(a, b). a \<noteq> 0 \<and> b \<noteq> 0) (zip (one_minus ls) rs)),
         np_sum (map (\<lambda>(a, b). a \<noteq> 0 \<and> b \<noteq> 0) (zip (one_minus ls) (one_minus rs))),
         np_sum (map (\<lambda>(a, b). a \<noteq> 0 \<and> b \<noteq> 0) (zip ls (one_minus rs))))"
  using assms
  by (simp add: confusion_def np_logical_and_def np_broadcast_same_length one_minus_def)

text \<open>On binary arrays of one length the four sums are the four position counts.\<close>

lemma confusion_binary:
  assumes "length ls = length rs" "binary ls" "binary rs"
  shows "confusion ls rs =
    Inr (count_positions 1 1 ls rs, count_positions 0 1 ls rs,
         count_positions 0 0 ls rs, count_positions 1 0 ls rs)"
proof -
  have "np_sum (map (\<lambda>(a, b). a \<noteq> 0 \<and> b \<noteq> 0) (zip ls rs)) = count_positions 1 1 ls rs
    \<and> np_sum (map (\<lambda>(a, b). a \<noteq> 0 \<and> b \<noteq> 0) (zip (one_minus ls) rs))
        = count_positions 0 1 ls rs
    \<and> np_sum (map (\<lambda>(a, b). a \<noteq> 0 \<and> b \<noteq> 0) (zip (one_minus ls) (one_minus rs)))
        = count_positions 0 0 ls rs
    \<and> np_sum (map (\<lambda>(a, b). a \<noteq> 0 \<and> b \<noteq> 0) (zip ls (one_minus rs)))
        = count_positions 1 0 ls rs"
    using assms
    by (induction ls rs rule: list_induct2)
       (auto simp: np_sum_def one_minus_def count_positions_def binary_def)
  with assms(1) show ?thesis by (simp add: confusion_same_length)
qed

lemma count_positions_total:
  assumes "length ls = length rs" "binary ls" "binary rs"
  shows "count_positions 1 1 ls rs + count_positions 0 1 ls rs
       + count_positions 0 0 ls rs + count_positions 1 0 ls rs = int (length ls)"
  using assms
  by (induction ls rs rule: list_induct2) (auto simp: count_positions_def binary_def)

lemma count_positions_nonneg: "0 \<le> count_positions l r ls rs"
  by (simp add: count_positions_def)

lemma count_positions_no_label:
  "l \<notin> set ls \<Longrightarrow> count_positions l r ls rs = 0"
  unfolding count_positions_def
  by (auto simp: filter_empty_conv dest: set_zip_leftD)

lemma count_positions_no_pred:
  "r \<notin> set rs \<Longrightarrow> count_positions l r ls rs = 0"
  unfolding count_positions_def
  by (auto simp: filter_empty_conv dest: set_zip_rightD)

lemma count_positions_same:
  "count_positions l r ls ls = (if l = r then int (count_list ls l) else 0)"
  unfolding count_positions_def by (induction ls) auto

lemma count_positions_opposite:
  "binary ls \<Longrightarrow> l = 0 \<or> l = 1 \<Longrightarrow>
   count_positions l r ls (one_minus ls) = (if r = 1 - l then int (count_list ls l) else 0)"
  unfolding count_positions_def one_minus_def binary_def by (induction ls) auto

lemma binary_one_minus: "binary ls \<Longrightarrow> binary (one_minus ls)"
  unfolding binary_def one_minus_def by (induction ls) auto

lemma count_list_pos: "x \<in> set xs \<Longrightarrow> 0 < count_list xs x"
  by (induction xs) auto

text \<open>
  A score from -1/2 up to, but not including, 3/2 rounds to 0 or to 1: the ties -1/2
  and 1/2 go to the even 0, and 3/2 would go to 2.
\<close>

lemma binary_range_round:
  assumes "- (1 / 2) \<le> s" "s < 3 / 2"
  shows "np_round s = 0 \<or> np_round s = 1"
proof -
  consider "s < 0" | "0 \<le> s" "s < 1" | "1 \<le> s" by linarith
  then show ?thesis
  proof cases
    case 1
    with assms have "\<lfloor>s\<rfloor> = - 1" by (simp add: floor_eq_iff)
    with assms show ?thesis by (simp add: np_round_def Let_def)
  next
    case 2
    then have "\<lfloor>s\<rfloor> = 0" by (simp add: floor_eq_iff)
    then show ?thesis by (simp add: np_round_def Let_def)
  next
    case 3
    with assms have "\<lfloor>s\<rfloor> = 1" by (simp add: floor_eq_iff)
    with assms show ?thesis by (simp add: np_round_def Let_def)
  qed
qed

lemma binary_range_binary: "binary_range ss \<Longrightarrow> binary (map np_round ss)"
  by (induction ss) (auto simp: binary_range_def binary_def dest: binary_range_round)

lemma evaluate_binary:
  assumes "binary Y" "length (predict p X) = length Y" "binary (map np_round (predict p X))"
  shows "fst (evaluate p X Y verbose w) = Inr (spec_metrics Y (map np_round (predict p X)))"
  using assms
  by (simp add: fst_evaluate_same_length confusion_binary classification_metrics_def
      spec_metrics_def Let_def)

subsection \<open>The worked example\<close>

text \<open>
  C1. With the true labels [1,0,1,1] and any predicted scores that round to [1,0,0,1],
  evaluate returns TP=2, FP=0, TN=1, FN=1, recall 2/3, precision 1 and accuracy 3/4.
\<close>

theorem evaluate_example:
  assumes "map np_round (predict p X) = [1, 0, 0, 1]"
  shows "fst (evaluate p X [1, 0, 1, 1] verbose w) =
    Inr \<lparr>TP = 2, FP = 0, FN = 1, TN = 1,
         Precision = Finite 1, Recall = Finite (2 / 3), Accuracy = Finite (3 / 4)\<rparr>"
proof -
  have "length (map np_round (predict p X)) = length [1 :: int, 0, 1, 1]"
    by (simp add: assms)
  then have len: "length (predict p X) = length [1 :: int, 0, 1, 1]"
    by simp
  show ?thesis
    by (simp add: fst_evaluate_same_length [OF len] assms confusion_def np_logical_and_def
        np_broadcast_def one_minus_def np_sum_def classification_metrics_def
        np_true_divide_def)
qed

theorem evaluate_example_witness:
  "fst (evaluate raw_predictor [[9 / 10, 3], [1 / 5, 1], [2 / 5, 0], [7 / 10, 2]]
          [1, 0, 1, 1] True empty_world) =
    Inr \<lparr>TP = 2, FP = 0, FN = 1, TN = 1,
         Precision = Finite 1, Recall = Finite (2 / 3), Accuracy = Finite (3 / 4)\<rparr>"
  using evaluate_example
    [of raw_predictor "[[9 / 10, 3], [1 / 5, 1], [2 / 5, 0], [7 / 10, 2]]" True empty_world]
  by (simp add: raw_predictor_def np_round_def Let_def floor_rat_numeral_divide
      floor_rat_one_divide)

subsection \<open>The counts and the rates\<close>

text \<open>
  C2, as stated, at a score outside the unit interval. The labels [1,0] are binary and
  the scores [2,0] have their length, yet the score 2 rounds to 2, which is neither 0 nor
  1, and evaluate counts that position both as a true positive (label and prediction are
  non-zero) and as a false negative (label and one minus prediction are non-zero): it
  returns TP=1 and FN=1 with recall 1/2, where counting the positions with label 1 and
  prediction 1, and label 1 and prediction 0, gives TP=0 and FN=0.
\<close>

theorem evaluate_out_of_range_counterexample:
  "binary [1, 0] \<and>
   length (predict raw_predictor [[2, 0], [0, 0]]) = length [1 :: int, 0] \<and>
   map np_round (predict raw_predictor [[2, 0], [0, 0]]) = [2, 0] \<and>
   evaluate raw_predictor [[2, 0], [0, 0]] [1, 0] False empty_world =
     (Inr \<lparr>TP = 1, FP = 0, FN = 1, TN = 1, Precision = Finite 1,
           Recall = Finite (1 / 2), Accuracy = Finite (2 / 3)\<rparr>, empty_world) \<and>
   spec_metrics [1, 0] (map np_round (predict raw_predictor [[2, 0], [0, 0]])) =
     \<lparr>TP = 0, FP = 0, FN = 0, TN = 1, Precision = NaN, Recall = NaN, Accuracy = Finite 1\<rparr>"
  by (simp add: binary_def raw_predictor_def np_round_def Let_def evaluate_def confusion_def
      np_logical_and_def np_broadcast_def one_minus_def np_sum_def classification_metrics_def
      np_true_divide_def spec_metrics_def count_positions_def)

text \<open>
  C2, amended. For every list of true labels in {0,1} and every list of predicted scores
  of the same length with each score in the binary range (from -1/2 up to, but not
  including, 3/2; every score between 0 and 1 is), the rounded predictions are all 0 or 1,
  and evaluate returns the metrics of the specification: TP, FP, TN and FN are the
  numbers of positions with (label, rounded prediction) equal to (1,1), (0,1), (0,0) and
  (1,0), recall is TP/(TP+FN), precision is TP/(TP+FP) and accuracy is
  (TP+TN)/(TP+FP+TN+FN), each by numpy's true division.
\<close>

theorem evaluate_refines_spec:
  assumes "binary test_labels"
    and "length (predict p X) = length test_labels"
    and "binary_range (predict p X)"
  shows "binary (map np_round (predict p X)) \<and>
    fst (evaluate p X test_labels verbose w) =
      Inr (spec_metrics test_labels (map np_round (predict p X)))"
  using assms by (simp add: binary_range_binary evaluate_binary)

theorem evaluate_refines_spec_witness:
  "map np_round
     (predict raw_predictor [[9 / 10, 3], [1 / 5, 1], [1 / 2, 0], [- (1 / 4), 2]]) =
     [1, 0, 0, 0] \<and>
   fst (evaluate raw_predictor [[9 / 10, 3], [1 / 5, 1], [1 / 2, 0], [- (1 / 4), 2]]
          [1, 0, 1, 0] True empty_world) =
     Inr \<lparr>TP = 1, FP = 0, FN = 1, TN = 2, Precision = Finite 1,
          Recall = Finite (1 / 2), Accuracy = Finite (3 / 4)\<rparr>"
proof -
  have r: "map np_round
      (predict raw_predictor [[9 / 10, 3], [1 / 5, 1], [1 / 2, 0], [- (1 / 4), 2]]) =
      [1, 0, 0, 0]"
    by code_simp
  show ?thesis
    using evaluate_refines_spec
      [of "[1, 0, 1, 0]" raw_predictor
          "[[9 / 10, 3], [1 / 5, 1], [1 / 2, 0], [- (1 / 4), 2]]" True empty_world]
    unfolding r
    by (simp add: binary_def binary_range_def raw_predictor_def spec_metrics_def
        count_positions_def np_true_divide_def)
qed

text \<open>
  C3, as stated, at a score outside the unit interval. With the one label 1 and the one
  score 2, evaluate returns TP=1 and FN=1: the four counts sum to 2, and one example was
  evaluated.
\<close>

theorem confusion_counts_sum_counterexample:
  "binary [1] \<and>
   length (predict raw_predictor [[2, 0]]) = length [1 :: int] \<and>
   evaluate raw_predictor [[2, 0]] [1] False empty_world =
     (Inr \<lparr>TP = 1, FP = 0, FN = 1, TN = 0, Precision = Finite 1,
           Recall = Finite (1 / 2), Accuracy = Finite (1 / 2)\<rparr>, empty_world) \<and>
   (1 :: int) + 0 + 0 + 1 \<noteq> int (length [1 :: int])"
  by (simp add: binary_def raw_predictor_def np_round_def Let_def evaluate_def confusion_def
      np_logical_and_def np_broadcast_def one_minus_def np_sum_def classification_metrics_def
      np_true_divide_def)

text \<open>
  C3, amended. For every list of true labels in {0,1} and every list of predicted scores
  of the same length whose rounded values are all 0 or 1, evaluate returns, and the four
  confusion counts it returns are non-negative integers whose sum is the number of
  evaluated examples.
\<close>

theorem confusion_counts_sum:
  assumes "binary test_labels"
    and "length (predict p X) = length test_labels"
    and "binary (map np_round (predict p X))"
  shows "\<exists>m w'. evaluate p X test_labels verbose w = (Inr m, w') \<and>
    0 \<le> TP m \<and> 0 \<le> FP m \<and> 0 \<le> TN m \<and> 0 \<le> FN m \<and>
    TP m + FP m + TN m + FN m = int (length test_labels)"
proof -
  let ?R = "map np_round (predict p X)"
  have len: "length test_labels = length ?R" using assms(2) by simp
  have c: "confusion test_labels ?R =
    Inr (count_positions 1 1 test_labels ?R, count_positions 0 1 test_labels ?R,
         count_positions 0 0 test_labels ?R, count_positions 1 0 test_labels ?R)"
    using len assms(1,3) by (rule confusion_binary)
  have t: "count_positions 1 1 test_labels ?R + count_positions 0 1 test_labels ?R
       + count_positions 0 0 test_labels ?R + count_positions 1 0 test_labels ?R
       = int (length test_labels)"
    using len assms(1,3) by (rule count_positions_total)
  have f: "fst (evaluate p X test_labels verbose w) =
    Inr (classification_metrics
      (count_positions 1 1 test_labels ?R, count_positions 0 1 test_labels ?R,
       count_positions 0 0 test_labels ?R, count_positions 1 0 test_labels ?R))"
    by (simp add: fst_evaluate_same_length [OF assms(2)] c)
  show ?thesis
    by (rule evaluate_returnsI [OF f])
       (use t in \<open>simp add: classification_metrics_def count_positions_nonneg\<close>)
qed

theorem confusion_counts_sum_witness:
  "\<exists>m w'. evaluate raw_predictor [[9 / 10, 3], [1 / 5, 1], [6 / 5, 0]] [1, 0, 0] True
             empty_world = (Inr m, w') \<and>
    0 \<le> TP m \<and> 0 \<le> FP m \<and> 0 \<le> TN m \<and> 0 \<le> FN m \<and>
    TP m + FP m + TN m + FN m = int (length [1 :: int, 0, 0])"
  using confusion_counts_sum
    [of "[1, 0, 0]" raw_predictor "[[9 / 10, 3], [1 / 5, 1], [6 / 5, 0]]" True empty_world]
  by (simp add: binary_def raw_predictor_def np_round_def Let_def floor_rat_numeral_divide
      floor_rat_one_divide)

subsection \<open>Zero denominators\<close>

text \<open>
  C4. The divisions of evaluate are unguarded. Whenever every label is 0 and every
  prediction rounds to 0 (a valid input), TP+FN and TP+FP are zero, and evaluate raises
  nothing: it returns its dictionary, with recall and precision the NaN of numpy's
  division of zero by zero.
\<close>

theorem evaluate_zero_denominator:
  assumes "list_all (\<lambda>l. l = 0) test_labels"
    and "list_all (\<lambda>s. np_round s = 0) (predict p X)"
    and "length (predict p X) = length test_labels"
  shows "\<exists>m w'. evaluate p X test_labels verbose w = (Inr m, w') \<and>
    TP m + FN m = 0 \<and> TP m + FP m = 0 \<and> Recall m = NaN \<and> Precision m = NaN"
proof -
  let ?R = "map np_round (predict p X)"
  have len: "length test_labels = length ?R" using assms(3) by simp
  have bl: "binary test_labels" and nl: "1 \<notin> set test_labels"
    using assms(1) by (auto simp: binary_def list_all_iff)
  have br: "binary ?R" and nr: "1 \<notin> set ?R"
    using assms(2) by (auto simp: binary_def list_all_iff)
  have c: "confusion test_labels ?R =
    Inr (0, 0, count_positions 0 0 test_labels ?R, 0)"
    using confusion_binary [OF len bl br] nl nr
    by (simp add: count_positions_no_label count_positions_no_pred)
  have f: "fst (evaluate p X test_labels verbose w) =
    Inr (classification_metrics (0, 0, count_positions 0 0 test_labels ?R, 0))"
    by (simp add: fst_evaluate_same_length [OF assms(3)] c)
  show ?thesis
    by (rule evaluate_returnsI [OF f])
       (simp add: classification_metrics_def np_true_divide_def)
qed

theorem evaluate_zero_denominator_witness:
  "\<exists>m w'. evaluate raw_predictor [[1 / 10, 3], [1 / 5, 1]] [0, 0] True empty_world
             = (Inr m, w') \<and>
    TP m + FN m = 0 \<and> TP m + FP m = 0 \<and> Recall m = NaN \<and> Precision m = NaN"
  using evaluate_zero_denominator
    [of "[0, 0]" raw_predictor "[[1 / 10, 3], [1 / 5, 1]]" True empty_world]
  by (simp add: raw_predictor_def np_round_def Let_def floor_rat_one_divide)

subsection \<open>Determinism and the verbose flag\<close>

text \<open>
  C5. The outcome of evaluate (the metrics, or the exception) is a function of the
  predictor, the test features, the test labels and the flag alone: it is the same in
  any two worlds, and in particular a second call, made in the world the first call
  left behind, returns what the first returned.
\<close>

theorem evaluate_deterministic:
  "fst (evaluate p X Y verbose w) = fst (evaluate p X Y verbose w') \<and>
   fst (evaluate p X Y verbose (snd (evaluate p X Y verbose w))) =
     fst (evaluate p X Y verbose w)"
  by (simp add: fst_evaluate)

theorem evaluate_deterministic_witness:
  "fst (evaluate raw_predictor [[9 / 10, 3], [1 / 5, 1]] [1, 1] True
          (snd (evaluate raw_predictor [[9 / 10, 3], [1 / 5, 1]] [1, 1] True empty_world))) =
   fst (evaluate raw_predictor [[9 / 10, 3], [1 / 5, 1]] [1, 1] True empty_world)"
  using evaluate_deterministic
    [of raw_predictor "[[9 / 10, 3], [1 / 5, 1]]" "[1, 1]" True empty_world empty_world]
  by simp

text \<open>
  C9, as stated, at one label and three predictions. numpy broadcasts the single label
  against the three rounded predictions, so with verbose=False evaluate returns metrics
  (TP=2, FN=1); with verbose=True the two arrays of different length reach
  \<^verbatim>\<open>pd.crosstab\<close>, which raises ValueError: the flag changes the outcome.
\<close>

theorem evaluate_verbose_counterexample:
  "evaluate raw_predictor [[9 / 10, 3], [1 / 5, 1], [7 / 10, 2]] [1] False empty_world =
     (Inr \<lparr>TP = 2, FP = 0, FN = 1, TN = 0, Precision = Finite 1,
           Recall = Finite (2 / 3), Accuracy = Finite (2 / 3)\<rparr>, empty_world) \<and>
   evaluate raw_predictor [[9 / 10, 3], [1 / 5, 1], [7 / 10, 2]] [1] True empty_world =
     (Inl ValueError, empty_world)"
  by (simp add: raw_predictor_def np_round_def Let_def floor_rat_numeral_divide
      floor_rat_one_divide evaluate_def confusion_def np_logical_and_def np_broadcast_def
      one_minus_def np_sum_def classification_metrics_def np_true_divide_def
      print_metrics_def pd_crosstab_def)

text \<open>
  C9, amended. With verbose=False evaluate prints nothing and leaves the world as it was.
  Whenever the call with verbose=True returns a metric dictionary, the call with
  verbose=False returns the same dictionary, and verbose=True has only added printed
  output: the cross table, the three metric lines and an empty line, in this order. When
  the test labels and the predictions have the same length, the call with verbose=True
  does return, and the two outcomes are equal.
\<close>

theorem evaluate_verbose_only_prints:
  "snd (evaluate p X Y False w) = w \<and>
   (\<forall>m. fst (evaluate p X Y True w) = Inr m \<longrightarrow>
      fst (evaluate p X Y False w) = Inr m \<and>
      snd (evaluate p X Y True w) =
        w\<lparr>stdout := stdout w @
            [Crosstab Y (map np_round (predict p X)),
             Formatted (CHR 0x0A # ''{:<11} {:.3f}'') ''Recall:'' (Recall m),
             Formatted ''{:<11} {:.3f}'' ''Precision:'' (Precision m),
             Formatted ''{:<11} {:.3f}'' ''Accuracy:'' (Accuracy m),
             Text []]\<rparr>) \<and>
   (length (predict p X) = length Y \<longrightarrow>
      fst (evaluate p X Y True w) = fst (evaluate p X Y False w) \<and>
      (\<exists>m. fst (evaluate p X Y True w) = Inr m))"
proof (intro conjI allI impI)
  show "snd (evaluate p X Y False w) = w"
    by (simp add: evaluate_def Let_def split: sum.splits)
next
  fix m
  assume a: "fst (evaluate p X Y True w) = Inr m"
  then show "fst (evaluate p X Y False w) = Inr m"
    by (auto simp: fst_evaluate split: sum.splits)
  from a show "snd (evaluate p X Y True w) =
        w\<lparr>stdout := stdout w @
            [Crosstab Y (map np_round (predict p X)),
             Formatted (CHR 0x0A # ''{:<11} {:.3f}'') ''Recall:'' (Recall m),
             Formatted ''{:<11} {:.3f}'' ''Precision:'' (Precision m),
             Formatted ''{:<11} {:.3f}'' ''Accuracy:'' (Accuracy m),
             Text []]\<rparr>"
    by (auto simp: evaluate_def Let_def print_metrics_def pd_crosstab_def print_def
        split: sum.splits if_splits)
next
  assume l: "length (predict p X) = length Y"
  show "fst (evaluate p X Y True w) = fst (evaluate p X Y False w)"
    by (simp add: fst_evaluate_same_length [OF l])
  have "length Y = length (map np_round (predict p X))" using l by simp
  then show "\<exists>m. fst (evaluate p X Y True w) = Inr m"
    by (simp add: fst_evaluate_same_length [OF l] confusion_same_length)
qed

theorem evaluate_verbose_only_prints_witness:
  "evaluate raw_predictor [[9 / 10, 3], [1 / 5, 1]] [1, 1] False empty_world =
     (Inr \<lparr>TP = 1, FP = 0, FN = 1, TN = 0, Precision = Finite 1,
           Recall = Finite (1 / 2), Accuracy = Finite (1 / 2)\<rparr>, empty_world) \<and>
   evaluate raw_predictor [[9 / 10, 3], [1 / 5, 1]] [1, 1] True empty_world =
     (Inr \<lparr>TP = 1, FP = 0, FN = 1, TN = 0, Precision = Finite 1,
           Recall = Finite (1 / 2), Accuracy = Finite (1 / 2)\<rparr>,
      \<lparr>stdout =
         [Crosstab [1, 1] [1, 0],
          Formatted (CHR 0x0A # ''{:<11} {:.3f}'') ''Recall:'' (Finite (1 / 2)),
          Formatted ''{:<11} {:.3f}'' ''Precision:'' (Finite 1),
          Formatted ''{:<11} {:.3f}'' ''Accuracy:'' (Finite (1 / 2)),
          Text []],
        fs_dirs = [], fs_files = [], endpoints = []\<rparr>)"
proof -
  let ?m = "\<lparr>TP = 1, FP = 0, FN = 1, TN = 0, Precision = Finite 1,
           Recall = Finite (1 / 2), Accuracy = Finite (1 / 2)\<rparr>"
  have r: "map np_round (predict raw_predictor [[9 / 10, 3], [1 / 5, 1]]) = [1, 0]"
    by code_simp
  have l: "length (predict raw_predictor [[9 / 10, 3], [1 / 5, 1]]) = length [1 :: int, 1]"
    by (simp add: raw_predictor_def)
  have t: "fst (evaluate raw_predictor [[9 / 10, 3], [1 / 5, 1]] [1, 1] True empty_world) =
    Inr ?m"
    by (simp add: fst_evaluate_same_length [OF l] r confusion_def np_logical_and_def
        np_broadcast_def one_minus_def np_sum_def classification_metrics_def
        np_true_divide_def)
  show ?thesis
    using evaluate_verbose_only_prints
      [of raw_predictor "[[9 / 10, 3], [1 / 5, 1]]" "[1, 1]" empty_world] t
    unfolding r
    by (simp add: prod_eq_iff empty_world_def)
qed

subsection \<open>All correct and all incorrect\<close>

text \<open>
  C6, as stated, at a rounded prediction that is neither 0 nor 1. The labels [1,0] hold a
  0 and a 1, the scores [2,1] round to [2,1], and each rounded prediction differs from
  its label; TP+FN and TP+FP are 2. evaluate returns precision 1/2, recall 1/2 and
  accuracy 1/3, not 0.
\<close>

theorem evaluate_boundary_counterexample:
  "binary [1, 0] \<and>
   map np_round (predict raw_predictor [[2, 0], [1, 0]]) = [2, 1] \<and>
   (2 :: int) \<noteq> 1 \<and> (1 :: int) \<noteq> 0 \<and>
   evaluate raw_predictor [[2, 0], [1, 0]] [1, 0] False empty_world =
     (Inr \<lparr>TP = 1, FP = 1, FN = 1, TN = 0, Precision = Finite (1 / 2),
           Recall = Finite (1 / 2), Accuracy = Finite (1 / 3)\<rparr>, empty_world)"
  by (simp add: binary_def raw_predictor_def np_round_def Let_def evaluate_def confusion_def
      np_logical_and_def np_broadcast_def one_minus_def np_sum_def classification_metrics_def
      np_true_divide_def)

text \<open>
  C6, amended. For every list of labels in {0,1} with at least one 0 and one 1: if every
  rounded prediction equals its label, evaluate returns precision, recall and accuracy 1;
  if every rounded prediction is the other class of its label (one minus the label), it
  returns 0 for all three. The denominators TP+FN and TP+FP are non-zero in both cases.
\<close>

theorem evaluate_boundary:
  assumes "binary test_labels" and "0 \<in> set test_labels" and "1 \<in> set test_labels"
  shows "(map np_round (predict p X) = test_labels \<longrightarrow>
      (\<exists>m w'. evaluate p X test_labels verbose w = (Inr m, w') \<and>
         TP m + FN m \<noteq> 0 \<and> TP m + FP m \<noteq> 0 \<and>
         Precision m = Finite 1 \<and> Recall m = Finite 1 \<and> Accuracy m = Finite 1)) \<and>
    (map np_round (predict p X) = one_minus test_labels \<longrightarrow>
      (\<exists>m w'. evaluate p X test_labels verbose w = (Inr m, w') \<and>
         TP m + FN m \<noteq> 0 \<and> TP m + FP m \<noteq> 0 \<and>
         Precision m = Finite 0 \<and> Recall m = Finite 0 \<and> Accuracy m = Finite 0))"
proof -
  let ?n0 = "int (count_list test_labels 0)" and ?n1 = "int (count_list test_labels 1)"
  have p0: "0 < ?n0" and p1: "0 < ?n1" using assms(2,3) by (simp_all add: count_list_pos)
  have same: "confusion test_labels test_labels = Inr (?n1, 0, ?n0, 0)"
    using confusion_binary [OF refl assms(1) assms(1)] by (simp add: count_positions_same)
  have len: "length test_labels = length (one_minus test_labels)"
    by (simp add: one_minus_def)
  have opp: "confusion test_labels (one_minus test_labels) = Inr (0, ?n0, 0, ?n1)"
    using confusion_binary [OF len assms(1) binary_one_minus [OF assms(1)]] assms(1)
    by (simp add: count_positions_opposite)
  show ?thesis
  proof (intro conjI impI)
    assume r: "map np_round (predict p X) = test_labels"
    have "length (map np_round (predict p X)) = length test_labels"
      by (simp add: r)
    then have l: "length (predict p X) = length test_labels" by simp
    have f: "fst (evaluate p X test_labels verbose w) =
      Inr (classification_metrics (?n1, 0, ?n0, 0))"
      by (simp add: fst_evaluate_same_length [OF l] r same)
    show "\<exists>m w'. evaluate p X test_labels verbose w = (Inr m, w') \<and>
         TP m + FN m \<noteq> 0 \<and> TP m + FP m \<noteq> 0 \<and>
         Precision m = Finite 1 \<and> Recall m = Finite 1 \<and> Accuracy m = Finite 1"
      by (rule evaluate_returnsI [OF f])
         (use p0 p1 in \<open>simp add: classification_metrics_def np_true_divide_def\<close>)
  next
    assume r: "map np_round (predict p X) = one_minus test_labels"
    have "length (map np_round (predict p X)) = length (one_minus test_labels)"
      by (simp add: r)
    then have l: "length (predict p X) = length test_labels"
      by (simp add: one_minus_def)
    have f: "fst (evaluate p X test_labels verbose w) =
      Inr (classification_metrics (0, ?n0, 0, ?n1))"
      by (simp add: fst_evaluate_same_length [OF l] r opp)
    show "\<exists>m w'. evaluate p X test_labels verbose w = (Inr m, w') \<and>
         TP m + FN m \<noteq> 0 \<and> TP m + FP m \<noteq> 0 \<and>
         Precision m = Finite 0 \<and> Recall m = Finite 0 \<and> Accuracy m = Finite 0"
      by (rule evaluate_returnsI [OF f])
         (use p0 p1 in \<open>simp add: classification_metrics_def np_true_divide_def\<close>)
  qed
qed

theorem evaluate_boundary_witness:
  "(\<exists>m w'. evaluate raw_predictor [[9 / 10, 3], [1 / 5, 1]] [1, 0] True empty_world
              = (Inr m, w') \<and>
         TP m + FN m \<noteq> 0 \<and> TP m + FP m \<noteq> 0 \<and>
         Precision m = Finite 1 \<and> Recall m = Finite 1 \<and> Accuracy m = Finite 1) \<and>
   (\<exists>m w'. evaluate raw_predictor [[1 / 5, 1], [9 / 10, 3]] [1, 0] True empty_world
              = (Inr m, w') \<and>
         TP m + FN m \<noteq> 0 \<and> TP m + FP m \<noteq> 0 \<and>
         Precision m = Finite 0 \<and> Recall m = Finite 0 \<and> Accuracy m = Finite 0)"
  using evaluate_boundary [of "[1, 0]" raw_predictor "[[9 / 10, 3], [1 / 5, 1]]" True empty_world]
    evaluate_boundary [of "[1, 0]" raw_predictor "[[1 / 5, 1], [9 / 10, 3]]" True empty_world]
  by (simp add: binary_def one_minus_def raw_predictor_def np_round_def Let_def
      floor_rat_numeral_divide floor_rat_one_divide)

section \<open>Properties of delete_endpoint\<close>

text \<open>
  C7. Deleting an endpoint is best-effort. Whatever the remote call does, for every
  predictor delete_endpoint returns normally. It calls the service with the predictor's
  endpoint name; when that call fails, with any exception, it prints
  \<^verbatim>\<open>Already deleted: <name>\<close> and the exception goes no further; when the call
  succeeds it prints \<^verbatim>\<open>Deleted <name>\<close>.
\<close>

theorem delete_endpoint_best_effort:
  "(\<exists>w'. delete_endpoint client p w = (Inr (), w')) \<and>
   (\<forall>e w1. client (endpoint p) w = (Inl e, w1) \<longrightarrow>
      delete_endpoint client p w =
        (Inr (), print (Text (''Already deleted: '' @ endpoint p)) w1)) \<and>
   (\<forall>w1. client (endpoint p) w = (Inr (), w1) \<longrightarrow>
      delete_endpoint client p w = (Inr (), print (Text (''Deleted '' @ endpoint p)) w1))"
  by (cases "client (endpoint p) w") (auto simp: delete_endpoint_def split: sum.splits)

theorem delete_endpoint_best_effort_witness:
  "delete_endpoint sagemaker_delete_endpoint raw_predictor empty_world =
     (Inr (), \<lparr>stdout = [Text ''Already deleted: moon-endpoint''], fs_dirs = [],
               fs_files = [], endpoints = []\<rparr>) \<and>
   delete_endpoint sagemaker_delete_endpoint raw_predictor
       (empty_world\<lparr>endpoints := [''moon-endpoint'']\<rparr>) =
     (Inr (), \<lparr>stdout = [Text ''Deleted moon-endpoint''], fs_dirs = [],
               fs_files = [], endpoints = []\<rparr>)"
  using delete_endpoint_best_effort [of sagemaker_delete_endpoint raw_predictor empty_world]
    delete_endpoint_best_effort
      [of sagemaker_delete_endpoint raw_predictor
          "empty_world\<lparr>endpoints := [''moon-endpoint'']\<rparr>"]
  by (simp add: sagemaker_delete_endpoint_def raw_predictor_def empty_world_def print_def)

section \<open>Properties of make_csv\<close>

text \<open>
  C8. Writing a split with make_csv and reading the file back should give the rows back.
  The function's docstring promises the file (it "converts them into one csv file with
  labels in the first column"), but the body that would write it is missing. For two
  rows written to \<^verbatim>\<open>data_moon/train.csv\<close> in an empty file system, make_csv
  creates the directory, prints the path and writes no file: there is nothing to read
  back.
\<close>

theorem make_csv_writes_no_file:
  "make_csv plain_path_exists plain_makedirs
       [[1 / 2, 3 / 2], [1 / 4, 0]] [1, 0] ''train.csv'' ''data_moon'' empty_world =
     (Inr (), \<lparr>stdout = [Text ''Path created: data_moon/train.csv''],
               fs_dirs = [''data_moon''], fs_files = [], endpoints = []\<rparr>) \<and>
   read_file
     (snd (make_csv plain_path_exists plain_makedirs
             [[1 / 2, 3 / 2], [1 / 4, 0]] [1, 0] ''train.csv'' ''data_moon'' empty_world))
     ''data_moon/train.csv'' = None"
  by (simp add: make_csv_def plain_path_exists_def plain_makedirs_def print_def
      read_file_def empty_world_def)

text \<open>
  C10, as stated, at the empty directory name. \<^verbatim>\<open>os.path.exists('')\<close> is false and
  \<^verbatim>\<open>os.makedirs('')\<close> raises FileNotFoundError: make_csv does not terminate
  normally, and nothing is printed.
\<close>

theorem make_csv_empty_dir_counterexample:
  "make_csv plain_path_exists plain_makedirs [[1 / 2, 3 / 2]] [1] ''train.csv'' []
       empty_world =
     (Inl FileNotFoundError, empty_world) \<and>
   stdout empty_world = []"
  by (simp add: make_csv_def plain_path_exists_def plain_makedirs_def empty_world_def)

text \<open>
  C10, amended. Whatever the two file system calls do: when
  \<^verbatim>\<open>os.path.exists(data_dir)\<close> is true, make_csv terminates normally, returns no
  value, prints \<^verbatim>\<open>Path created: <data_dir>/<filename>\<close> and changes nothing else.
  When it is false, make_csv calls \<^verbatim>\<open>os.makedirs(data_dir)\<close> once; if that call
  returns, make_csv terminates normally and prints the same message; if it raises (as it
  does on the empty path), the exception reaches the caller and nothing is printed. In
  every case the file system after make_csv is the one that call left, or the one before
  when the path existed: make_csv itself writes no file.
\<close>

theorem make_csv_effects:
  "(os_path_exists w data_dir \<longrightarrow>
      make_csv os_path_exists os_makedirs x y filename data_dir w =
        (Inr (), w\<lparr>stdout := stdout w @
                      [Text (''Path created: '' @ data_dir @ ''/'' @ filename)]\<rparr>)) \<and>
   (\<not> os_path_exists w data_dir \<longrightarrow>
      (\<forall>w1. os_makedirs data_dir w = (Inr (), w1) \<longrightarrow>
         make_csv os_path_exists os_makedirs x y filename data_dir w =
           (Inr (), w1\<lparr>stdout := stdout w1 @
                          [Text (''Path created: '' @ data_dir @ ''/'' @ filename)]\<rparr>)) \<and>
      (\<forall>e w1. os_makedirs data_dir w = (Inl e, w1) \<longrightarrow>
         make_csv os_path_exists os_makedirs x y filename data_dir w = (Inl e, w1))) \<and>
   fs_files (snd (make_csv os_path_exists os_makedirs x y filename data_dir w)) =
     fs_files (if os_path_exists w data_dir then w else snd (os_makedirs data_dir w)) \<and>
   fs_dirs (snd (make_csv os_path_exists os_makedirs x y filename data_dir w)) =
     fs_dirs (if os_path_exists w data_dir then w else snd (os_makedirs data_dir w))"
  by (cases "os_makedirs data_dir w")
     (auto simp: make_csv_def print_def split: sum.splits)

theorem make_csv_effects_witness:
  "make_csv plain_path_exists plain_makedirs [[1 / 2, 3 / 2]] [1] ''train.csv''
       ''data_moon'' empty_world =
     (Inr (), \<lparr>stdout = [Text ''Path created: data_moon/train.csv''],
               fs_dirs = [''data_moon''], fs_files = [], endpoints = []\<rparr>) \<and>
   make_csv plain_path_exists plain_makedirs [[1 / 2, 3 / 2]] [1] ''train.csv''
       ''data_moon'' (empty_world\<lparr>fs_dirs := [''data_moon'']\<rparr>) =
     (Inr (), \<lparr>stdout = [Text ''Path created: data_moon/train.csv''],
               fs_dirs = [''data_moon''], fs_files = [], endpoints = []\<rparr>) \<and>
   make_csv plain_path_exists plain_makedirs [[1 / 2, 3 / 2]] [1] ''report.csv''
       [] (empty_world\<lparr>fs_dirs := [''data_moon'']\<rparr>) =
     (Inl FileNotFoundError, empty_world\<lparr>fs_dirs := [''data_moon'']\<rparr>)"
  using make_csv_effects [of plain_path_exists empty_world "''data_moon''" plain_makedirs
      "[[1 / 2, 3 / 2]]" "[1]" "''train.csv''"]
    make_csv_effects [of plain_path_exists "empty_world\<lparr>fs_dirs := [''data_moon'']\<rparr>"
      "''data_moon''" plain_makedirs "[[1 / 2, 3 / 2]]" "[1]" "''train.csv''"]
    make_csv_effects [of plain_path_exists "empty_world\<lparr>fs_dirs := [''data_moon'']\<rparr>"
      "[]" plain_makedirs "[[1 / 2, 3 / 2]]" "[1]" "''report.csv''"]
  by (simp add: plain_path_exists_def plain_makedirs_def empty_world_def)

end
